theory Spec2Isabelle
  imports Complex_Main
begin

section \<open>Frames, series and exceptions\<close>

text \<open>
  A pandas Series is the list of its values in row order, a DataFrame the list of its
  named columns in column order. In this first part a value is a real: it describes the
  runs in which every number is finite and no operation overflows, with exact arithmetic.
  The values outside the reals are added to the two feature-engineering functions in a
  later section. Exceptions are values of \<open>exn\<close>.
\<close>

type_synonym series = "real list"

type_synonym dataframe = "(string \<times> series) list"

datatype exn =
    KeyError string
  | ValueError string
  | IndexError string
  | FileNotFoundError string
  | OSError string

text \<open>
  \<open>repr\<close> of a string: in single quotes, or in double quotes when the string holds a
  single quote and no double quote; the backslash, the enclosing quote, newline, carriage
  return and tab are escaped. Other control characters do not occur in the messages here.
\<close>

definition py_repr :: "string \<Rightarrow> string" where
  "py_repr s =
     (let q = (if CHR 0x27 \<in> set s \<and> CHR 0x22 \<notin> set s then CHR 0x22 else CHR 0x27);
          escape = (\<lambda>c. if c = CHR 0x5C then [CHR 0x5C, CHR 0x5C]
                         else if c = q then [CHR 0x5C, q]
                         else if c = CHR 0x0A then [CHR 0x5C, CHR ''n'']
                         else if c = CHR 0x0D then [CHR 0x5C, CHR ''r'']
                         else if c = CHR 0x09 then [CHR 0x5C, CHR ''t'']
                         else [c])
      in q # concat (map escape s) @ [q])"

text \<open>
  \<open>str(e)\<close> of an exception raised with one string argument: the argument itself, except
  for a KeyError, which answers the \<open>repr\<close> of its argument. A KeyError of a frame
  carries the name of the first missing column; pandas words the message of a selection
  by a list of names differently.
\<close>

fun str_exn :: "exn \<Rightarrow> string" where
  "str_exn (KeyError m) = py_repr m"
| "str_exn (ValueError m) = m"
| "str_exn (IndexError m) = m"
| "str_exn (FileNotFoundError m) = m"
| "str_exn (OSError m) = m"

abbreviation KELVIN :: string where
  "KELVIN \<equiv> ''Air temperature [K]''"

abbreviation RPM :: string where
  "RPM \<equiv> ''Rotational speed [rpm]''"

abbreviation SOUND :: string where
  "SOUND \<equiv> ''sound_volume_proxy''"

abbreviation CELSIUS :: string where
  "CELSIUS \<equiv> ''temperature_celsius''"

abbreviation HUMIDITY :: string where
  "HUMIDITY \<equiv> ''humidity''"

definition columns :: "dataframe \<Rightarrow> string list" where
  "columns df = map fst df"

text \<open>\<open>len(df)\<close>: the number of rows.\<close>

definition nrows :: "dataframe \<Rightarrow> nat" where
  "nrows df = (case df of [] \<Rightarrow> 0 | (_, s) # _ \<Rightarrow> length s)"

text \<open>\<open>df[c]\<close>: the column named \<open>c\<close>, KeyError when there is none.\<close>

definition getitem :: "dataframe \<Rightarrow> string \<Rightarrow> exn + series" where
  "getitem df c = (case map_of df c of None \<Rightarrow> Inl (KeyError c) | Some s \<Rightarrow> Inr s)"

text \<open>\<open>df[[c1, ..., cn]]\<close>: the named columns, in the order asked for.\<close>

fun select :: "dataframe \<Rightarrow> string list \<Rightarrow> exn + dataframe" where
  "select df [] = Inr []"
| "select df (c # cs) =
     (case getitem df c of
        Inl e \<Rightarrow> Inl e
      | Inr s \<Rightarrow> (case select df cs of Inl e \<Rightarrow> Inl e | Inr rest \<Rightarrow> Inr ((c, s) # rest)))"

text \<open>\<open>df.rename(columns={old: new}, inplace=True)\<close>: a missing \<open>old\<close> is ignored.\<close>

definition rename_col :: "string \<Rightarrow> string \<Rightarrow> dataframe \<Rightarrow> dataframe" where
  "rename_col old new df = map (\<lambda>(n, s). (if n = old then new else n, s)) df"

text \<open>\<open>df[c] = s\<close>: replaces the column in place, or appends it as the last one.\<close>

definition setitem :: "dataframe \<Rightarrow> string \<Rightarrow> series \<Rightarrow> dataframe" where
  "setitem df c s =
     (if c \<in> set (columns df) then map (\<lambda>(n, v). (n, if n = c then s else v)) df
      else df @ [(c, s)])"

text \<open>\<open>df.drop(columns=[c], inplace=True)\<close>: KeyError when there is no such column.\<close>

definition drop_col :: "dataframe \<Rightarrow> string \<Rightarrow> exn + dataframe" where
  "drop_col df c =
     (if c \<in> set (columns df) then Inr (filter (\<lambda>(n, _). n \<noteq> c) df) else Inl (KeyError c))"

definition sub_scalar :: "series \<Rightarrow> real \<Rightarrow> series" where
  "sub_scalar s c = map (\<lambda>x. x - c) s"

definition mul_scalar :: "series \<Rightarrow> real \<Rightarrow> series" where
  "mul_scalar s c = map (\<lambda>x. x * c) s"

definition add_scalar :: "series \<Rightarrow> real \<Rightarrow> series" where
  "add_scalar s c = map (\<lambda>x. x + c) s"

definition scalar_add :: "real \<Rightarrow> series \<Rightarrow> series" where
  "scalar_add c s = map (\<lambda>x. c + x) s"

definition series_add :: "series \<Rightarrow> series \<Rightarrow> series" where
  "series_add s t = map2 (+) s t"

text \<open>\<open>s.clip(lower, upper)\<close>.\<close>

definition clip :: "real \<Rightarrow> real \<Rightarrow> series \<Rightarrow> series" where
  "clip lower upper s = map (\<lambda>x. min upper (max lower x)) s"

text \<open>
  \<open>s.mean()\<close>. On an empty series pandas answers NaN; here the quotient by zero is 0.
  An empty corpus has no row in which the value could be used.
\<close>

definition mean :: "series \<Rightarrow> real" where
  "mean s = sum_list s / real (length s)"

section \<open>The process-wide random generator\<close>

text \<open>
  \<open>np.random\<close> is one generator shared by the whole process. Its state is modelled as the
  sequence of unit-interval samples it will hand out next; \<open>np.random.uniform(low, high)\<close>
  scales the next sample and advances the state, and with \<open>size=n\<close> it takes \<open>n\<close> of them.
\<close>

type_synonym rng = "nat \<Rightarrow> real"

definition uniform :: "real \<Rightarrow> real \<Rightarrow> rng \<Rightarrow> real \<times> rng" where
  "uniform low high g = (low + (high - low) * g 0, \<lambda>i. g (Suc i))"

definition uniform_n :: "real \<Rightarrow> real \<Rightarrow> nat \<Rightarrow> rng \<Rightarrow> series \<times> rng" where
  "uniform_n low high n g = (map (\<lambda>i. low + (high - low) * g i) [0..<n], \<lambda>i. g (n + i))"

section \<open>Feature engineering\<close>

text \<open>The humidity expression shared by both scripts, before noise and clipping.\<close>

definition humidity_expr :: "series \<Rightarrow> series \<Rightarrow> real \<Rightarrow> real \<Rightarrow> series" where
  "humidity_expr celsius sound temp_mean rpm_mean =
     (let base_humidity = 45.0; temp_weight = - 0.5; rpm_weight = 0.005
      in series_add
           (scalar_add base_humidity (mul_scalar (sub_scalar celsius temp_mean) temp_weight))
           (mul_scalar (sub_scalar sound rpm_mean) rpm_weight))"

text \<open>\<open>engineer_single_row\<close> of main.py (the serving path).\<close>

definition engineer_single_row :: "real \<Rightarrow> real \<Rightarrow> rng \<Rightarrow> (exn + dataframe) \<times> rng" where
  "engineer_single_row temp_k rpm g =
     (let df = [(KELVIN, [temp_k]), (RPM, [rpm])];
          df = rename_col RPM SOUND df
      in case getitem df KELVIN of Inl e \<Rightarrow> (Inl e, g) | Inr kelvin \<Rightarrow>
         (let df = setitem df CELSIUS (sub_scalar kelvin 273.15)
          in case drop_col df KELVIN of Inl e \<Rightarrow> (Inl e, g) | Inr df \<Rightarrow>
             (let temp_mean = 26.85; rpm_mean = 1538.0
              in case getitem df CELSIUS of Inl e \<Rightarrow> (Inl e, g) | Inr celsius \<Rightarrow>
                 (case getitem df SOUND of Inl e \<Rightarrow> (Inl e, g) | Inr sound \<Rightarrow>
                    (let humidity = humidity_expr celsius sound temp_mean rpm_mean;
                         (noise, g') = uniform (- 0.5) 0.5 g;
                         df = setitem df HUMIDITY (clip 0 100 (add_scalar humidity noise))
                     in (select df [SOUND, CELSIUS, HUMIDITY], g'))))))"

text \<open>\<open>engineer_features\<close> of from_model_to_production.py (the training path).\<close>

definition engineer_features :: "dataframe \<Rightarrow> rng \<Rightarrow> (exn + dataframe) \<times> rng" where
  "engineer_features df g =
     (case select df [KELVIN, RPM] of Inl e \<Rightarrow> (Inl e, g) | Inr features_df \<Rightarrow>
        (let features_df = rename_col RPM SOUND features_df
         in case getitem features_df KELVIN of Inl e \<Rightarrow> (Inl e, g) | Inr kelvin \<Rightarrow>
            (let features_df = setitem features_df CELSIUS (sub_scalar kelvin 273.15)
             in case drop_col features_df KELVIN of Inl e \<Rightarrow> (Inl e, g) | Inr features_df \<Rightarrow>
                (case getitem features_df CELSIUS of Inl e \<Rightarrow> (Inl e, g) | Inr celsius \<Rightarrow>
                   (case getitem features_df SOUND of Inl e \<Rightarrow> (Inl e, g) | Inr sound \<Rightarrow>
                      (let temp_mean = mean celsius;
                           rpm_mean = mean sound;
                           features_df = setitem features_df HUMIDITY
                                           (humidity_expr celsius sound temp_mean rpm_mean);
                           (noise, g') = uniform_n (- 2.5) 2.5 (nrows features_df) g
                       in case getitem features_df HUMIDITY of Inl e \<Rightarrow> (Inl e, g') | Inr h \<Rightarrow>
                          (let features_df = setitem features_df HUMIDITY (series_add h noise)
                           in case getitem features_df HUMIDITY of Inl e \<Rightarrow> (Inl e, g') | Inr h \<Rightarrow>
                              (let features_df = setitem features_df HUMIDITY (clip 0 100 h)
                               in (select features_df [SOUND, CELSIUS, HUMIDITY], g')))))))))"

text \<open>A concrete generator state, used to run the definitions on examples.\<close>

definition steady :: rng where
  "steady i = 1 / 2"

section \<open>The fitted model and the files\<close>

text \<open>
  The isolation forest is a library object. Its two scoring methods are fields of the
  model, each answering an array with one entry per row or raising;
  \<open>feature_names_in\<close> is \<open>None\<close> when the attribute does not exist.
\<close>

record model =
  predict :: "dataframe \<Rightarrow> exn + int list"
  decision_function :: "dataframe \<Rightarrow> exn + real list"
  feature_names_in :: "string list option"

datatype stored = Csv dataframe | Joblib model | Junk

type_synonym fs = "string \<rightharpoonup> stored"

abbreviation DATA_FILE :: string where
  "DATA_FILE \<equiv> ''predictive_maintenance.csv''"

abbreviation FILE_PATH :: string where
  "FILE_PATH \<equiv> ''/data/predictive_maintenance.csv''"

abbreviation MODEL_PATH :: string where
  "MODEL_PATH \<equiv> ''/results/isolation_forest_model.joblib''"

abbreviation MODEL_SAVE_PATH :: string where
  "MODEL_SAVE_PATH \<equiv> ''/results/isolation_forest_model.joblib''"

text \<open>\<open>joblib.load\<close> and \<open>pd.read_csv\<close>: a file of the wrong kind does not load.\<close>

definition joblib_load :: "fs \<Rightarrow> string \<Rightarrow> exn + model" where
  "joblib_load files path =
     (case files path of
        None \<Rightarrow> Inl (FileNotFoundError path)
      | Some (Joblib m) \<Rightarrow> Inr m
      | Some _ \<Rightarrow> Inl (ValueError ''not a joblib file''))"

definition read_csv :: "fs \<Rightarrow> string \<Rightarrow> exn + dataframe" where
  "read_csv files path =
     (case files path of
        None \<Rightarrow> Inl (FileNotFoundError path)
      | Some (Csv df) \<Rightarrow> Inr df
      | Some _ \<Rightarrow> Inl (ValueError ''not a csv file''))"

text \<open>
  Python's \<open>round(x, ndigits)\<close> on the exact value: to the nearest multiple of
  \<open>10 ^ -ndigits\<close>, a tie going to the even one.
\<close>

definition round_half_even :: "real \<Rightarrow> int" where
  "round_half_even y =
     (let f = \<lfloor>y\<rfloor>; d = y - of_int f
      in if d < 1 / 2 then f else if 1 / 2 < d then f + 1 else if even f then f else f + 1)"

definition py_round :: "real \<Rightarrow> nat \<Rightarrow> real" where
  "py_round x ndigits = of_int (round_half_even (x * 10 ^ ndigits)) / 10 ^ ndigits"

section \<open>The scoring service (main.py)\<close>

record SensorReading =
  temperature_k :: real
  rotational_speed_rpm :: real

record PredictionResponse =
  is_anomaly :: bool
  anomaly_score :: real
  status :: string

text \<open>
  A handler either raises \<open>HTTPException(status_code, detail)\<close> or lets an exception
  escape, which the framework answers without any detail of the handler's own.
\<close>

datatype failure = HTTPException nat string | Uncaught exn

text \<open>The global dictionary \<open>ml_models\<close>: a key is absent, bound to \<open>None\<close>, or bound to a model.\<close>

type_synonym registry = "string \<rightharpoonup> model option"

text \<open>\<open>lifespan\<close>, the part before \<open>yield\<close>, and the part after it.\<close>

definition lifespan_startup :: "fs \<Rightarrow> registry \<Rightarrow> exn + registry" where
  "lifespan_startup files ml_models =
     (if MODEL_PATH \<in> dom files then
        (case joblib_load files MODEL_PATH of
           Inl e \<Rightarrow> Inl e
         | Inr m \<Rightarrow> Inr (ml_models(''isolation_forest'' \<mapsto> Some m)))
      else Inr (ml_models(''isolation_forest'' \<mapsto> None)))"

definition lifespan_shutdown :: "registry \<Rightarrow> registry" where
  "lifespan_shutdown ml_models = Map.empty"

definition health_check :: "registry \<Rightarrow> failure + string \<times> bool" where
  "health_check ml_models =
     (case ml_models ''isolation_forest'' of
        None \<Rightarrow> Inl (Uncaught (KeyError ''isolation_forest''))
      | Some m \<Rightarrow> Inr (''running'', m \<noteq> None))"

text \<open>
  \<open>predict_anomaly\<close>. The handler reads \<open>ml_models\<close> and never assigns to it. The \<open>try\<close>
  block covers the engineering call only; the two scoring calls are outside it.
\<close>

definition predict_anomaly ::
  "registry \<Rightarrow> SensorReading \<Rightarrow> rng \<Rightarrow> (failure + PredictionResponse) \<times> rng" where
  "predict_anomaly ml_models reading g =
     (case ml_models ''isolation_forest'' of
        None \<Rightarrow> (Inl (Uncaught (KeyError ''isolation_forest'')), g)
      | Some None \<Rightarrow> (Inl (HTTPException 503 ''Model not loaded.''), g)
      | Some (Some m) \<Rightarrow>
          (case engineer_single_row (temperature_k reading) (rotational_speed_rpm reading) g of
             (Inl e, g') \<Rightarrow>
               (Inl (HTTPException 400 (''Feature engineering failed: '' @ str_exn e)), g')
           | (Inr processed_data, g') \<Rightarrow>
               (case predict m processed_data of
                  Inl e \<Rightarrow> (Inl (Uncaught e), g')
                | Inr prediction \<Rightarrow>
                    (case decision_function m processed_data of
                       Inl e \<Rightarrow> (Inl (Uncaught e), g')
                     | Inr score \<Rightarrow>
                         (case prediction of
                            [] \<Rightarrow> (Inl (Uncaught (IndexError ''prediction'')), g')
                          | p # _ \<Rightarrow>
                              (let is_anomaly' = (if p = - 1 then 1 else 0 :: int)
                               in case score of
                                    [] \<Rightarrow> (Inl (Uncaught (IndexError ''score'')), g')
                                  | s # _ \<Rightarrow>
                                      (Inr \<lparr>is_anomaly = (is_anomaly' \<noteq> 0),
                                            anomaly_score = py_round s 4,
                                            status = (if is_anomaly' \<noteq> 0 then ''ALERT'' else ''OK'')\<rparr>,
                                       g')))))))"

text \<open>
  The running service: the dictionary and the generator are the state shared by all
  requests; requests are answered one after the other. A request reaches a handler only
  with both fields of the reading being floats: the declared field types make the
  framework refuse any other body before the handler runs.
\<close>

record service =
  ml_models :: registry
  generator :: rng

datatype request = Predict SensorReading | Health

datatype response = Predicted "failure + PredictionResponse" | Healthy "failure + string \<times> bool"

definition serve :: "service \<Rightarrow> request \<Rightarrow> response \<times> service" where
  "serve sv rq =
     (case rq of
        Health \<Rightarrow> (Healthy (health_check (ml_models sv)), sv)
      | Predict reading \<Rightarrow>
          (let (r, g') = predict_anomaly (ml_models sv) reading (generator sv)
           in (Predicted r, sv\<lparr>generator := g'\<rparr>)))"

fun serve_all :: "service \<Rightarrow> request list \<Rightarrow> response list \<times> service" where
  "serve_all sv [] = ([], sv)"
| "serve_all sv (rq # rqs) =
     (let (r, sv') = serve sv rq;
          (rs, sv'') = serve_all sv' rqs
      in (r # rs, sv''))"

text \<open>
  Example artifacts, used to run the handler: a forest that flags every point, and a
  forest fitted on the three columns in another order (the library then refuses a frame
  whose columns are ordered differently).
\<close>

definition alarm_model :: model where
  "alarm_model =
     \<lparr>predict = (\<lambda>df. Inr [- 1]),
      decision_function = (\<lambda>df. Inr [- 0.12346]),
      feature_names_in = Some [SOUND, CELSIUS, HUMIDITY]\<rparr>"

definition reordered_model :: model where
  "reordered_model =
     \<lparr>predict = (\<lambda>df. if columns df = [CELSIUS, HUMIDITY, SOUND] then Inr [1]
                       else Inl (ValueError ''The feature names should match those that were passed during fit.'')),
      decision_function = (\<lambda>df. if columns df = [CELSIUS, HUMIDITY, SOUND] then Inr [0.1]
                       else Inl (ValueError ''The feature names should match those that were passed during fit.'')),
      feature_names_in = Some [CELSIUS, HUMIDITY, SOUND]\<rparr>"

section \<open>The training script (from_model_to_production.py)\<close>

text \<open>What the script prints, as far as it is modelled.\<close>

datatype out =
    Say string
  | Shape nat nat
  | Result_anomaly real
  | Result_normal real
  | Prediction_failed exn
  | Model_expects "string list"

text \<open>
  \<open>kagglehub.dataset_download\<close> raises, or answers the cache directory, whose files are
  given with their names. The cache is apart from the mounted volumes.
\<close>

type_synonym kaggle = "exn + string \<times> (string \<times> stored) list"

definition endswith :: "string \<Rightarrow> string \<Rightarrow> bool" where
  "endswith s suffix =
     (length suffix \<le> length s \<and> drop (length s - length suffix) s = suffix)"

text \<open>The \<open>try\<close> block of \<open>load_data\<close>: the file that is moved to \<open>FILE_PATH\<close>, or the exception.\<close>

definition fetch_dataset :: "kaggle \<Rightarrow> (exn + stored) \<times> out list" where
  "fetch_dataset download =
     (case download of
        Inl e \<Rightarrow> (Inl e, [])
      | Inr (cached_path, listing) \<Rightarrow>
          (let printed = [Say (''Download complete. Cached at: '' @ cached_path)]
           in case map_of listing DATA_FILE of
                Some f \<Rightarrow> (Inr f, printed @ [Say (''Moving file to permanent storage: '' @ FILE_PATH)])
              | None \<Rightarrow>
                  (let files = map fst listing;
                       csv_files = filter (\<lambda>f. endswith f ''.csv'') files
                   in case csv_files of
                        c # _ \<Rightarrow>
                          (case map_of listing c of
                             Some f \<Rightarrow>
                               (Inr f, printed @ [Say (''Moving file to permanent storage: '' @ FILE_PATH)])
                           | None \<Rightarrow> (Inl (FileNotFoundError c), printed))
                      | [] \<Rightarrow>
                          (Inl (FileNotFoundError ''No CSV file found in the downloaded dataset.''),
                           printed))))"

definition load_data :: "kaggle \<Rightarrow> fs \<Rightarrow> dataframe option \<times> fs \<times> out list" where
  "load_data download files =
     (let printed0 = [Say ''--- [1/5] Loading Data ---''];
          (fetched, files1, printed1) =
            (if FILE_PATH \<notin> dom files then
               (let printed = printed0 @ [Say (''File not found at '' @ FILE_PATH @ ''.''),
                                  Say ''Initiating automated download via KaggleHub...''];
                    (r, printed') = fetch_dataset download
                in case r of
                     Inl e \<Rightarrow>
                       (False, files,
                        printed @ printed' @
                        [Say (''CRITICAL ERROR: Automatic download failed: '' @ str_exn e)])
                   | Inr f \<Rightarrow>
                       (True, files(FILE_PATH \<mapsto> f), printed @ printed' @ [Say ''File saved permanently.'']))
             else (True, files, printed0))
      in if \<not> fetched then (None, files1, printed1)
         else
           (let printed2 = printed1 @ [Say (''Reading data from: '' @ FILE_PATH)]
            in case read_csv files1 FILE_PATH of
                 Inr df \<Rightarrow>
                   (Some df, files1,
                    printed2 @ [Say ''Dataset loaded successfully!'', Shape (nrows df) (length df)])
               | Inl e \<Rightarrow>
                   (None, files1, printed2 @ [Say (''Error reading CSV file: '' @ str_exn e)])))"

text \<open>\<open>train_model\<close> calls the library's \<open>fit\<close>, a parameter here; \<open>save_model\<close> writes the artifact.\<close>

definition save_model :: "model \<Rightarrow> fs \<Rightarrow> fs" where
  "save_model m files = files(MODEL_SAVE_PATH \<mapsto> Joblib m)"

text \<open>One pass of the loop of \<open>run_simulation\<close>, and the loop over the fixed stream.\<close>

definition simulate_item :: "model \<Rightarrow> real \<times> real \<times> real \<Rightarrow> out list" where
  "simulate_item m item =
     (let (sound_volume_proxy, temperature_celsius, humidity) = item;
          input_df = [(SOUND, [sound_volume_proxy]), (CELSIUS, [temperature_celsius]),
                      (HUMIDITY, [humidity])];
          failed = (\<lambda>e. Prediction_failed e #
                      (case feature_names_in m of None \<Rightarrow> [] | Some ns \<Rightarrow> [Model_expects ns]))
      in case predict m input_df of
           Inl e \<Rightarrow> failed e
         | Inr prediction \<Rightarrow>
             (case decision_function m input_df of
                Inl e \<Rightarrow> failed e
              | Inr anomaly_score' \<Rightarrow>
                  (case prediction of
                     [] \<Rightarrow> failed (IndexError ''prediction'')
                   | p # _ \<Rightarrow>
                       (let is_anomaly' = (if p = - 1 then True else False)
                        in case anomaly_score' of
                             [] \<Rightarrow> failed (IndexError ''anomaly_score'')
                           | s # _ \<Rightarrow>
                               (let score_val = py_round s 4
                                in if is_anomaly' then [Result_anomaly score_val]
                                   else [Result_normal score_val])))))"

definition simulated_stream :: "(real \<times> real \<times> real) list" where
  "simulated_stream =
     [(1500, 26.0, 45.0), (1550, 27.5, 42.1), (2800, 35.0, 30.0), (1510, 26.5, 44.0)]"

definition run_simulation :: "model \<Rightarrow> out list" where
  "run_simulation m = concat (map (simulate_item m) simulated_stream)"

text \<open>
  \<open>main\<close>: the result is the exception that ended the run, if any, the files afterwards
  and the output.
\<close>

definition main ::
  "kaggle \<Rightarrow> (dataframe \<Rightarrow> exn + model) \<Rightarrow> fs \<Rightarrow> rng \<Rightarrow> exn option \<times> fs \<times> out list" where
  "main download fit files g =
     (case load_data download files of
        (None, files1, printed) \<Rightarrow> (None, files1, printed)
      | (Some df, files1, printed) \<Rightarrow>
          (case fst (engineer_features df g) of
             Inl e \<Rightarrow> (Some e, files1, printed)
           | Inr features_df \<Rightarrow>
               (case fit features_df of
                  Inl e \<Rightarrow> (Some e, files1, printed)
                | Inr m \<Rightarrow>
                    (let files2 = save_model m files1
                     in (None, files2,
                         printed @ run_simulation m @
                         [Say ''--- Pipeline Finished Successfully ---''])))))"

section \<open>Feature engineering on floats with their special values\<close>

text \<open>
  A reading of a request and a cell of a corpus is an IEEE double: a finite number, an
  infinity or NaN. The two feature-engineering functions are repeated here over such
  values. Arithmetic on finite values is exact unless the result reaches the overflow
  threshold, where it becomes an infinity; the rounding of results within the finite range
  and the sign of zero are not modelled.
\<close>

datatype float64 = Fin real | PosInf | NegInf | NaN

type_synonym fseries = "float64 list"

type_synonym fframe = "(string \<times> fseries) list"

text \<open>The largest finite double, and the least magnitude that rounds to an infinity.\<close>

definition MAX_FLOAT :: real where
  "MAX_FLOAT = 2 ^ 1024 - 2 ^ 971"

definition OVERFLOW :: real where
  "OVERFLOW = 2 ^ 1024 - 2 ^ 970"

definition overflow :: "real \<Rightarrow> float64" where
  "overflow x = (if OVERFLOW \<le> x then PosInf else if x \<le> - OVERFLOW then NegInf else Fin x)"

fun fadd :: "float64 \<Rightarrow> float64 \<Rightarrow> float64" where
  "fadd NaN _ = NaN"
| "fadd _ NaN = NaN"
| "fadd PosInf NegInf = NaN"
| "fadd NegInf PosInf = NaN"
| "fadd PosInf _ = PosInf"
| "fadd _ PosInf = PosInf"
| "fadd NegInf _ = NegInf"
| "fadd _ NegInf = NegInf"
| "fadd (Fin a) (Fin b) = overflow (a + b)"

fun fneg :: "float64 \<Rightarrow> float64" where
  "fneg NaN = NaN"
| "fneg PosInf = NegInf"
| "fneg NegInf = PosInf"
| "fneg (Fin a) = Fin (- a)"

definition fsub :: "float64 \<Rightarrow> float64 \<Rightarrow> float64" where
  "fsub x y = fadd x (fneg y)"

fun fmul :: "float64 \<Rightarrow> float64 \<Rightarrow> float64" where
  "fmul NaN _ = NaN"
| "fmul _ NaN = NaN"
| "fmul (Fin a) (Fin b) = overflow (a * b)"
| "fmul (Fin a) PosInf = (if a = 0 then NaN else if 0 < a then PosInf else NegInf)"
| "fmul (Fin a) NegInf = (if a = 0 then NaN else if 0 < a then NegInf else PosInf)"
| "fmul PosInf (Fin b) = (if b = 0 then NaN else if 0 < b then PosInf else NegInf)"
| "fmul NegInf (Fin b) = (if b = 0 then NaN else if 0 < b then NegInf else PosInf)"
| "fmul PosInf PosInf = PosInf"
| "fmul PosInf NegInf = NegInf"
| "fmul NegInf PosInf = NegInf"
| "fmul NegInf NegInf = PosInf"

text \<open>\<open>x.clip(lower, upper)\<close>, the lesser of \<open>upper\<close> and the greater of \<open>lower\<close> and \<open>x\<close>: NaN stays NaN.\<close>

fun fclip :: "real \<Rightarrow> real \<Rightarrow> float64 \<Rightarrow> float64" where
  "fclip lower upper NaN = NaN"
| "fclip lower upper PosInf = Fin upper"
| "fclip lower upper NegInf = Fin (min upper lower)"
| "fclip lower upper (Fin v) = Fin (min upper (max lower v))"

text \<open>
  \<open>s.mean()\<close> skips the NaN cells, adds up the others from the first to the last and
  divides by their number; with no cell left it answers NaN.
\<close>

definition fsum :: "fseries \<Rightarrow> float64" where
  "fsum s = foldl fadd (Fin 0) s"

definition fmean :: "fseries \<Rightarrow> float64" where
  "fmean s =
     (let vs = filter (\<lambda>x. x \<noteq> NaN) s
      in if vs = [] then NaN
         else (case fsum vs of
                 Fin t \<Rightarrow> Fin (t / real (length vs))
               | PosInf \<Rightarrow> PosInf
               | NegInf \<Rightarrow> NegInf
               | NaN \<Rightarrow> NaN))"

text \<open>The operations on frames, as in the first section.\<close>

definition columns_f :: "fframe \<Rightarrow> string list" where
  "columns_f df = map fst df"

definition nrows_f :: "fframe \<Rightarrow> nat" where
  "nrows_f df = (case df of [] \<Rightarrow> 0 | (_, s) # _ \<Rightarrow> length s)"

definition getitem_f :: "fframe \<Rightarrow> string \<Rightarrow> exn + fseries" where
  "getitem_f df c = (case map_of df c of None \<Rightarrow> Inl (KeyError c) | Some s \<Rightarrow> Inr s)"

fun select_f :: "fframe \<Rightarrow> string list \<Rightarrow> exn + fframe" where
  "select_f df [] = Inr []"
| "select_f df (c # cs) =
     (case getitem_f df c of
        Inl e \<Rightarrow> Inl e
      | Inr s \<Rightarrow> (case select_f df cs of Inl e \<Rightarrow> Inl e | Inr rest \<Rightarrow> Inr ((c, s) # rest)))"

definition rename_col_f :: "string \<Rightarrow> string \<Rightarrow> fframe \<Rightarrow> fframe" where
  "rename_col_f old new df = map (\<lambda>(n, s). (if n = old then new else n, s)) df"

definition setitem_f :: "fframe \<Rightarrow> string \<Rightarrow> fseries \<Rightarrow> fframe" where
  "setitem_f df c s =
     (if c \<in> set (columns_f df) then map (\<lambda>(n, v). (n, if n = c then s else v)) df
      else df @ [(c, s)])"

definition drop_col_f :: "fframe \<Rightarrow> string \<Rightarrow> exn + fframe" where
  "drop_col_f df c =
     (if c \<in> set (columns_f df) then Inr (filter (\<lambda>(n, _). n \<noteq> c) df) else Inl (KeyError c))"

definition humidity_expr_f :: "fseries \<Rightarrow> fseries \<Rightarrow> float64 \<Rightarrow> float64 \<Rightarrow> fseries" where
  "humidity_expr_f celsius sound temp_mean rpm_mean =
     (let base_humidity = Fin 45.0; temp_weight = Fin (- 0.5); rpm_weight = Fin 0.005
      in map2 fadd
           (map (\<lambda>x. fadd base_humidity x)
              (map (\<lambda>x. fmul x temp_weight) (map (\<lambda>x. fsub x temp_mean) celsius)))
           (map (\<lambda>x. fmul x rpm_weight) (map (\<lambda>x. fsub x rpm_mean) sound)))"

definition engineer_single_row_f :: "float64 \<Rightarrow> float64 \<Rightarrow> rng \<Rightarrow> (exn + fframe) \<times> rng" where
  "engineer_single_row_f temp_k rpm g =
     (let df = [(KELVIN, [temp_k]), (RPM, [rpm])];
          df = rename_col_f RPM SOUND df
      in case getitem_f df KELVIN of Inl e \<Rightarrow> (Inl e, g) | Inr kelvin \<Rightarrow>
         (let df = setitem_f df CELSIUS (map (\<lambda>x. fsub x (Fin 273.15)) kelvin)
          in case drop_col_f df KELVIN of Inl e \<Rightarrow> (Inl e, g) | Inr df \<Rightarrow>
             (let temp_mean = Fin 26.85; rpm_mean = Fin 1538.0
              in case getitem_f df CELSIUS of Inl e \<Rightarrow> (Inl e, g) | Inr celsius \<Rightarrow>
                 (case getitem_f df SOUND of Inl e \<Rightarrow> (Inl e, g) | Inr sound \<Rightarrow>
                    (let humidity = humidity_expr_f celsius sound temp_mean rpm_mean;
                         (noise, g') = uniform (- 0.5) 0.5 g;
                         df = setitem_f df HUMIDITY
                                (map (fclip 0 100) (map (\<lambda>x. fadd x (Fin noise)) humidity))
                     in (select_f df [SOUND, CELSIUS, HUMIDITY], g'))))))"

definition engineer_features_f :: "fframe \<Rightarrow> rng \<Rightarrow> (exn + fframe) \<times> rng" where
  "engineer_features_f df g =
     (case select_f df [KELVIN, RPM] of Inl e \<Rightarrow> (Inl e, g) | Inr features_df \<Rightarrow>
        (let features_df = rename_col_f RPM SOUND features_df
         in case getitem_f features_df KELVIN of Inl e \<Rightarrow> (Inl e, g) | Inr kelvin \<Rightarrow>
            (let features_df = setitem_f features_df CELSIUS (map (\<lambda>x. fsub x (Fin 273.15)) kelvin)
             in case drop_col_f features_df KELVIN of Inl e \<Rightarrow> (Inl e, g) | Inr features_df \<Rightarrow>
                (case getitem_f features_df CELSIUS of Inl e \<Rightarrow> (Inl e, g) | Inr celsius \<Rightarrow>
                   (case getitem_f features_df SOUND of Inl e \<Rightarrow> (Inl e, g) | Inr sound \<Rightarrow>
                      (let temp_mean = fmean celsius;
                           rpm_mean = fmean sound;
                           features_df = setitem_f features_df HUMIDITY
                                           (humidity_expr_f celsius sound temp_mean rpm_mean);
                           (noise, g') = uniform_n (- 2.5) 2.5 (nrows_f features_df) g
                       in case getitem_f features_df HUMIDITY of Inl e \<Rightarrow> (Inl e, g') | Inr h \<Rightarrow>
                          (let features_df = setitem_f features_df HUMIDITY (map2 fadd h (map Fin noise))
                           in case getitem_f features_df HUMIDITY of Inl e \<Rightarrow> (Inl e, g') | Inr h \<Rightarrow>
                              (let features_df = setitem_f features_df HUMIDITY (map (fclip 0 100) h)
                               in (select_f features_df [SOUND, CELSIUS, HUMIDITY], g')))))))))"

text \<open>A float lies in a closed interval when it is a finite number in it.\<close>

definition in_interval :: "real \<Rightarrow> real \<Rightarrow> float64 \<Rightarrow> bool" where
  "in_interval lower upper x = (case x of Fin v \<Rightarrow> lower \<le> v \<and> v \<le> upper | _ \<Rightarrow> False)"

section \<open>Facts about the feature engineering\<close>

lemma select_two:
  "map_of df c1 = Some a \<Longrightarrow> map_of df c2 = Some b \<Longrightarrow> select df [c1, c2] = Inr [(c1, a), (c2, b)]"
  by (simp add: getitem_def)

lemma select_two_missing:
  "map_of df c1 = None \<or> map_of df c2 = None \<Longrightarrow> \<exists>e. select df [c1, c2] = Inl e"
  by (auto simp: getitem_def split: option.splits)

lemma engineer_single_row_eq:
  "engineer_single_row temp_k rpm g =
     (Inr [(SOUND, [rpm]),
           (CELSIUS, [temp_k - 273.15]),
           (HUMIDITY, [min 100 (max 0
                        ((45.0 + (temp_k - 273.15 - 26.85) * (- 0.5) + (rpm - 1538.0) * 0.005)
                         + (- 0.5 + (0.5 - (- 0.5)) * g 0)))])],
      \<lambda>i. g (Suc i))"
  by (simp add: engineer_single_row_def rename_col_def getitem_def setitem_def drop_col_def
      columns_def sub_scalar_def humidity_expr_def series_add_def scalar_add_def add_scalar_def mul_scalar_def
      uniform_def clip_def)

lemma engineer_features_eq:
  assumes "map_of df KELVIN = Some a" and "map_of df RPM = Some b"
  shows "engineer_features df g =
     (Inr [(SOUND, b),
           (CELSIUS, sub_scalar a 273.15),
           (HUMIDITY, clip 0 100
              (series_add
                 (humidity_expr (sub_scalar a 273.15) b (mean (sub_scalar a 273.15)) (mean b))
                 (fst (uniform_n (- 2.5) 2.5 (length b) g))))],
      snd (uniform_n (- 2.5) 2.5 (length b) g))"
  apply (simp add: engineer_features_def select_two [OF assms] rename_col_def getitem_def setitem_def
      drop_col_def columns_def nrows_def split_beta Let_def del: select.simps)
  apply (simp add: getitem_def)
  done

lemma engineer_features_missing:
  assumes "map_of df KELVIN = None \<or> map_of df RPM = None"
  shows "\<exists>e. engineer_features df g = (Inl e, g)"
proof -
  from select_two_missing [OF assms] obtain e where "select df [KELVIN, RPM] = Inl e" ..
  then show ?thesis by (simp add: engineer_features_def del: select.simps)
qed

lemma engineer_features_Inr:
  assumes "fst (engineer_features df g) = Inr fd"
  obtains a b where "map_of df KELVIN = Some a" and "map_of df RPM = Some b"
proof (cases "map_of df KELVIN = None \<or> map_of df RPM = None")
  case True
  from engineer_features_missing [OF True, of g] assms show ?thesis by auto
next
  case False
  then show ?thesis using that by auto
qed

text \<open>
  Claim C2. On the serving path and on the training path the frame that is returned has
  exactly the columns sound_volume_proxy, temperature_celsius, humidity, in this order:
  the serving path always returns such a frame, and the training path does whenever it
  returns a frame at all, whatever the order and number of columns of the corpus.
\<close>

theorem feature_order_fixed:
  "(\<exists>fd. fst (engineer_single_row temp_k rpm g) = Inr fd \<and> columns fd = [SOUND, CELSIUS, HUMIDITY])
   \<and> (\<forall>fd. fst (engineer_features df g) = Inr fd \<longrightarrow> columns fd = [SOUND, CELSIUS, HUMIDITY])"
proof (intro conjI allI impI)
  show "\<exists>fd. fst (engineer_single_row temp_k rpm g) = Inr fd \<and> columns fd = [SOUND, CELSIUS, HUMIDITY]"
    by (simp add: engineer_single_row_eq columns_def)
next
  fix fd assume ok: "fst (engineer_features df g) = Inr fd"
  then obtain a b where "map_of df KELVIN = Some a" and "map_of df RPM = Some b"
    by (rule engineer_features_Inr)
  from engineer_features_eq [OF this, of g] ok show "columns fd = [SOUND, CELSIUS, HUMIDITY]"
    by (auto simp: columns_def)
qed

text \<open>
  Claim C4. On both paths temperature_celsius is the Kelvin value minus 273.15, with no
  rounding and no clipping step, and sound_volume_proxy is the rpm value unchanged: the
  serving path returns a frame with these two values for every reading, and the training
  path returns a frame with these two columns for every corpus that has the two raw
  columns.
\<close>

theorem conversion_exact:
  "(\<exists>fd. fst (engineer_single_row temp_k rpm g) = Inr fd
       \<and> getitem fd CELSIUS = Inr [temp_k - 273.15] \<and> getitem fd SOUND = Inr [rpm])
   \<and> (getitem df KELVIN = Inr a \<and> getitem df RPM = Inr b \<longrightarrow>
       (\<exists>fd. fst (engineer_features df g) = Inr fd
          \<and> getitem fd CELSIUS = Inr (map (\<lambda>k. k - 273.15) a) \<and> getitem fd SOUND = Inr b))"
proof (intro conjI impI)
  show "\<exists>fd. fst (engineer_single_row temp_k rpm g) = Inr fd
       \<and> getitem fd CELSIUS = Inr [temp_k - 273.15] \<and> getitem fd SOUND = Inr [rpm]"
    by (simp add: engineer_single_row_eq getitem_def)
next
  assume "getitem df KELVIN = Inr a \<and> getitem df RPM = Inr b"
  then have a: "map_of df KELVIN = Some a" and b: "map_of df RPM = Some b"
    by (auto simp: getitem_def split: option.splits)
  show "\<exists>fd. fst (engineer_features df g) = Inr fd
          \<and> getitem fd CELSIUS = Inr (map (\<lambda>k. k - 273.15) a) \<and> getitem fd SOUND = Inr b"
    by (simp add: engineer_features_eq [OF a b] getitem_def sub_scalar_def)
qed

theorem conversion_exact_witness:
  "(getitem [(''UDI'', [1, 2]), (RPM, [1400, 1600]), (KELVIN, [298, 302])] KELVIN = Inr [298, 302]
    \<and> getitem [(''UDI'', [1, 2]), (RPM, [1400, 1600]), (KELVIN, [298, 302])] RPM = Inr [1400, 1600])
   \<and> (\<exists>fd. fst (engineer_features [(''UDI'', [1, 2]), (RPM, [1400, 1600]), (KELVIN, [298, 302])] steady)
             = Inr fd
        \<and> getitem fd CELSIUS = Inr (map (\<lambda>k. k - 273.15) [298, 302])
        \<and> getitem fd SOUND = Inr [1400, 1600])"
proof -
  have cols: "getitem [(''UDI'', [1, 2]), (RPM, [1400, 1600]), (KELVIN, [298, 302])] KELVIN
        = Inr [298, 302]
    \<and> getitem [(''UDI'', [1, 2]), (RPM, [1400, 1600]), (KELVIN, [298, 302])] RPM = Inr [1400, 1600]"
    by (simp add: getitem_def)
  with conversion_exact [where g = steady
      and df = "[(''UDI'', [1, 2]), (RPM, [1400, 1600]), (KELVIN, [298, 302])]"
      and a = "[298, 302]" and b = "[1400, 1600]"]
  show ?thesis by blast
qed

theorem feature_order_fixed_witness:
  "fst (engineer_features [(''UDI'', [1, 2]), (RPM, [1400, 1600]), (KELVIN, [298, 302])] steady)
     = Inr [(SOUND, [1400, 1600]), (CELSIUS, [24.85, 28.85]), (HUMIDITY, [45.5, 44.5])]
   \<and> columns [(SOUND, [1400, 1600]), (CELSIUS, [24.85, 28.85]), (HUMIDITY, [45.5, 44.5])]
     = [SOUND, CELSIUS, HUMIDITY]"
proof -
  have run: "fst (engineer_features [(''UDI'', [1, 2]), (RPM, [1400, 1600]), (KELVIN, [298, 302])] steady)
     = Inr [(SOUND, [1400, 1600]), (CELSIUS, [24.85, 28.85]), (HUMIDITY, [45.5, 44.5])]"
    by (simp add: engineer_features_eq [of _ "[298, 302]" "[1400, 1600]"] sub_scalar_def mean_def
        humidity_expr_def series_add_def scalar_add_def add_scalar_def mul_scalar_def clip_def uniform_n_def
        steady_def upt_rec)
  with feature_order_fixed [where g = steady
      and df = "[(''UDI'', [1, 2]), (RPM, [1400, 1600]), (KELVIN, [298, 302])]"]
  show ?thesis by blast
qed

text \<open>
  Claim C1. The serving path is meant to replicate the training transform with the means
  of the training corpus. It uses the literals 26.85 and 1538.0 instead. On the corpus of
  the two readings (298 K, 1400 rpm) and (302 K, 1600 rpm), whose means are 26.85 and
  1500, and with zero noise on both paths, training gives the first reading the humidity
  45.5 and serving gives the same reading 45.31.
\<close>

theorem serving_means_are_not_the_corpus_means:
  "fst (engineer_features [(KELVIN, [298, 302]), (RPM, [1400, 1600])] steady)
     = Inr [(SOUND, [1400, 1600]), (CELSIUS, [24.85, 28.85]), (HUMIDITY, [45.5, 44.5])]
   \<and> fst (engineer_single_row 298 1400 steady)
     = Inr [(SOUND, [1400]), (CELSIUS, [24.85]), (HUMIDITY, [45.31])]"
  by (simp add: engineer_single_row_eq engineer_features_eq [of _ "[298, 302]" "[1400, 1600]"]
      sub_scalar_def mean_def humidity_expr_def series_add_def scalar_add_def add_scalar_def mul_scalar_def
      clip_def uniform_n_def steady_def upt_rec)



section \<open>Facts about the service and the training run\<close>

lemma serve_unloaded:
  assumes "ml_models sv ''isolation_forest'' = Some None"
  shows "serve sv rq =
     ((case rq of
         Predict reading \<Rightarrow> Predicted (Inl (HTTPException 503 ''Model not loaded.''))
       | Health \<Rightarrow> Healthy (Inr (''running'', False))),
      sv)"
  using assms
  by (cases rq) (simp_all add: serve_def predict_anomaly_def health_check_def)

lemma serve_all_unloaded:
  assumes "ml_models sv ''isolation_forest'' = Some None"
  shows "serve_all sv rqs =
     (map (\<lambda>rq. case rq of
                  Predict reading \<Rightarrow> Predicted (Inl (HTTPException 503 ''Model not loaded.''))
                | Health \<Rightarrow> Healthy (Inr (''running'', False))) rqs,
      sv)"
  using assms
  by (induction rqs) (simp_all add: serve_unloaded)

text \<open>
  Claim C6. When no artifact exists at the model path at startup, startup binds the model
  to \<open>None\<close>, and from then on the service stays as it is: whatever requests arrive and
  however many, every scoring request is answered with the 503 error "Model not loaded.",
  every health query reports that no model is loaded, and neither the dictionary nor the
  generator changes.
\<close>

theorem unloaded_service_rejects_every_request:
  assumes "MODEL_PATH \<notin> dom files"
  shows "\<exists>reg. lifespan_startup files ml0 = Inr reg \<and> reg ''isolation_forest'' = Some None
     \<and> (\<forall>g rqs. serve_all \<lparr>ml_models = reg, generator = g\<rparr> rqs =
          (map (\<lambda>rq. case rq of
                       Predict reading \<Rightarrow> Predicted (Inl (HTTPException 503 ''Model not loaded.''))
                     | Health \<Rightarrow> Healthy (Inr (''running'', False))) rqs,
           \<lparr>ml_models = reg, generator = g\<rparr>))"
proof -
  let ?reg = "ml0(''isolation_forest'' \<mapsto> None)"
  have "lifespan_startup files ml0 = Inr ?reg"
    using assms by (simp add: lifespan_startup_def)
  moreover have "?reg ''isolation_forest'' = Some None"
    by simp
  moreover have "serve_all \<lparr>ml_models = ?reg, generator = g\<rparr> rqs =
          (map (\<lambda>rq. case rq of
                       Predict reading \<Rightarrow> Predicted (Inl (HTTPException 503 ''Model not loaded.''))
                     | Health \<Rightarrow> Healthy (Inr (''running'', False))) rqs,
           \<lparr>ml_models = ?reg, generator = g\<rparr>)" for g rqs
    by (rule serve_all_unloaded) simp
  ultimately show ?thesis by blast
qed

theorem unloaded_service_rejects_every_request_witness:
  "MODEL_PATH \<notin> dom (Map.empty :: fs)
   \<and> (\<exists>reg. lifespan_startup Map.empty Map.empty = Inr reg \<and> reg ''isolation_forest'' = Some None
     \<and> fst (serve_all \<lparr>ml_models = reg, generator = steady\<rparr>
              [Predict \<lparr>temperature_k = 300, rotational_speed_rpm = 1500\<rparr>, Health,
               Predict \<lparr>temperature_k = 308.15, rotational_speed_rpm = 2800\<rparr>])
         = [Predicted (Inl (HTTPException 503 ''Model not loaded.'')),
            Healthy (Inr (''running'', False)),
            Predicted (Inl (HTTPException 503 ''Model not loaded.''))])"
proof -
  have absent: "MODEL_PATH \<notin> dom (Map.empty :: fs)" by simp
  from unloaded_service_rejects_every_request [OF absent, of Map.empty]
  obtain reg where "lifespan_startup Map.empty Map.empty = Inr reg"
    and "reg ''isolation_forest'' = Some None"
    and "\<forall>g rqs. serve_all \<lparr>ml_models = reg, generator = g\<rparr> rqs =
          (map (\<lambda>rq. case rq of
                       Predict reading \<Rightarrow> Predicted (Inl (HTTPException 503 ''Model not loaded.''))
                     | Health \<Rightarrow> Healthy (Inr (''running'', False))) rqs,
           \<lparr>ml_models = reg, generator = g\<rparr>)"
    by blast
  with absent show ?thesis by (simp del: serve_all.simps)
qed





text \<open>
  Claim C8. With an artifact fitted on the three columns in another order, the library
  refuses the frame of the serving path. The handler has no \<open>try\<close> around the scoring
  calls: the exception escapes it, and nothing names the expected features. The loop of
  \<open>run_simulation\<close> catches the same exception and prints the names the model expects.
\<close>

theorem scoring_failure_escapes_without_feature_names:
  "fst (predict_anomaly [''isolation_forest'' \<mapsto> Some reordered_model]
          \<lparr>temperature_k = 300, rotational_speed_rpm = 1500\<rparr> steady)
     = Inl (Uncaught (ValueError ''The feature names should match those that were passed during fit.''))
   \<and> simulate_item reordered_model (1500, 26.0, 45.0)
     = [Prediction_failed (ValueError ''The feature names should match those that were passed during fit.''),
        Model_expects [CELSIUS, HUMIDITY, SOUND]]"
  by (simp add: predict_anomaly_def engineer_single_row_def
        rename_col_def getitem_def setitem_def drop_col_def columns_def sub_scalar_def
        humidity_expr_def series_add_def scalar_add_def add_scalar_def mul_scalar_def uniform_def clip_def
        reordered_model_def simulate_item_def)







lemma load_data_other_paths:
  "path \<noteq> FILE_PATH \<Longrightarrow> fst (snd (load_data download files)) path = files path"
  by (simp add: load_data_def Let_def split_beta split: sum.splits)

text \<open>
  Claim C10. When the data file is missing and the download raises, or delivers neither
  the data file nor any CSV file, the run ends after printing "CRITICAL ERROR: Automatic
  download failed: " with the cause, and no file has changed. Whenever \<open>load_data\<close>
  answers \<open>None\<close>, the run ends without an exception and the artifact path holds what it
  held before: the save step is not reached.
\<close>

theorem missing_data_writes_no_artifact:
  "(FILE_PATH \<notin> dom files \<and>
      (download = Inl e \<or>
       (\<exists>p listing. download = Inr (p, listing) \<and> map_of listing DATA_FILE = None
          \<and> (\<forall>n \<in> set (map fst listing). \<not> endswith n ''.csv''))) \<longrightarrow>
      (\<exists>msg printed. main download fit files g =
         (None, files, printed @ [Say (''CRITICAL ERROR: Automatic download failed: '' @ msg)])))
   \<and> (fst (load_data download files) = None \<longrightarrow>
        fst (main download fit files g) = None
        \<and> fst (snd (main download fit files g)) MODEL_SAVE_PATH = files MODEL_SAVE_PATH)"
proof (intro conjI impI)
  assume h: "FILE_PATH \<notin> dom files \<and>
      (download = Inl e \<or>
       (\<exists>p listing. download = Inr (p, listing) \<and> map_of listing DATA_FILE = None
          \<and> (\<forall>n \<in> set (map fst listing). \<not> endswith n ''.csv'')))"
  then have absent: "FILE_PATH \<notin> dom files" by simp
  from h consider (raises) "download = Inl e"
    | (empty) p listing where "download = Inr (p, listing)" "map_of listing DATA_FILE = None"
        "\<forall>n \<in> set (map fst listing). \<not> endswith n ''.csv''"
    by blast
  then show "\<exists>msg printed. main download fit files g =
         (None, files, printed @ [Say (''CRITICAL ERROR: Automatic download failed: '' @ msg)])"
  proof cases
    case raises
    with absent have "main download fit files g =
        (None, files,
         [Say ''--- [1/5] Loading Data ---'', Say (''File not found at '' @ FILE_PATH @ ''.''),
          Say ''Initiating automated download via KaggleHub...'']
         @ [Say (''CRITICAL ERROR: Automatic download failed: '' @ str_exn e)])"
      by (simp add: main_def load_data_def fetch_dataset_def)
    then show ?thesis by blast
  next
    case empty
    from empty(3) have "filter (\<lambda>f. endswith f ''.csv'') (map fst listing) = []"
      by (simp add: filter_empty_conv)
    with absent empty(1,2) have "main download fit files g =
        (None, files,
         [Say ''--- [1/5] Loading Data ---'', Say (''File not found at '' @ FILE_PATH @ ''.''),
          Say ''Initiating automated download via KaggleHub...'',
          Say (''Download complete. Cached at: '' @ p)]
         @ [Say (''CRITICAL ERROR: Automatic download failed: ''
                  @ ''No CSV file found in the downloaded dataset.'')])"
      by (simp add: main_def load_data_def fetch_dataset_def)
    then show ?thesis by blast
  qed
next
  assume none: "fst (load_data download files) = None"
  then show "fst (main download fit files g) = None"
    by (simp add: main_def split_beta split: option.splits)
next
  assume none: "fst (load_data download files) = None"
  have "fst (snd (main download fit files g)) = fst (snd (load_data download files))"
    using none by (simp add: main_def split_beta split: option.splits)
  then show "fst (snd (main download fit files g)) MODEL_SAVE_PATH = files MODEL_SAVE_PATH"
    by (simp add: load_data_other_paths)
qed

theorem missing_data_writes_no_artifact_witness:
  "FILE_PATH \<notin> dom (Map.empty :: fs)
   \<and> (\<exists>msg printed. main (Inl (OSError ''network unreachable'')) (\<lambda>df. Inr alarm_model) Map.empty steady =
         (None, Map.empty, printed @ [Say (''CRITICAL ERROR: Automatic download failed: '' @ msg)]))"
  using missing_data_writes_no_artifact [where files = Map.empty
      and download = "Inl (OSError ''network unreachable'')" and e = "OSError ''network unreachable''"
      and fit = "\<lambda>df. Inr alarm_model" and g = steady]
  by simp

section \<open>Facts about the humidity on floats\<close>

lemma OVERFLOW_large: "10 ^ 307 < OVERFLOW"
  by (simp add: OVERFLOW_def)

lemma MAX_FLOAT_gap: "MAX_FLOAT + 2000 < OVERFLOW"
  by (simp add: MAX_FLOAT_def OVERFLOW_def)

lemma overflow_Fin: "\<bar>x\<bar> < OVERFLOW \<Longrightarrow> overflow x = Fin x"
  by (auto simp: overflow_def)

lemma fadd_Fin: "\<bar>a + b\<bar> < OVERFLOW \<Longrightarrow> fadd (Fin a) (Fin b) = Fin (a + b)"
  by (simp add: overflow_Fin)

lemma fsub_Fin: "\<bar>a - b\<bar> < OVERFLOW \<Longrightarrow> fsub (Fin a) (Fin b) = Fin (a - b)"
  by (simp add: fsub_def overflow_Fin)

lemma fmul_Fin: "\<bar>a * b\<bar> < OVERFLOW \<Longrightarrow> fmul (Fin a) (Fin b) = Fin (a * b)"
  by (simp add: overflow_Fin)

lemma scaled_bound:
  fixes x w :: real
  assumes "\<bar>x\<bar> < bound" and "\<bar>w\<bar> \<le> k" and "0 \<le> k"
  shows "\<bar>x * w\<bar> \<le> bound * k"
proof -
  have "\<bar>x * w\<bar> = \<bar>x\<bar> * \<bar>w\<bar>" by (rule abs_mult)
  also have "\<dots> \<le> bound * k"
    using assms by (intro mult_mono) auto
  finally show ?thesis .
qed

lemma humidity_value_finite:
  assumes c: "\<bar>c - m1\<bar> < OVERFLOW" and r: "\<bar>r - m2\<bar> < OVERFLOW"
    and b0: "\<bar>b0\<bar> \<le> 100" and w1: "\<bar>w1\<bar> \<le> 1 / 2" and w2: "\<bar>w2\<bar> \<le> 1 / 100"
    and n: "\<bar>noise\<bar> \<le> 3"
  shows "fadd (fadd (fadd (Fin b0) (fmul (fsub (Fin c) (Fin m1)) (Fin w1)))
                    (fmul (fsub (Fin r) (Fin m2)) (Fin w2)))
              (Fin noise)
         = Fin (b0 + (c - m1) * w1 + (r - m2) * w2 + noise)"
proof -
  have big: "1000 < OVERFLOW"
    using OVERFLOW_large by (simp add: order_less_trans [of 1000 "10 ^ 307"])
  have t1: "\<bar>(c - m1) * w1\<bar> \<le> OVERFLOW * (1 / 2)"
    using c w1 by (intro scaled_bound) auto
  have t2: "\<bar>(r - m2) * w2\<bar> \<le> OVERFLOW * (1 / 100)"
    using r w2 by (intro scaled_bound) auto
  have s1: "fsub (Fin c) (Fin m1) = Fin (c - m1)"
    using c by (rule fsub_Fin)
  have s2: "fsub (Fin r) (Fin m2) = Fin (r - m2)"
    using r by (rule fsub_Fin)
  have m1: "fmul (Fin (c - m1)) (Fin w1) = Fin ((c - m1) * w1)"
    using t1 big by (intro fmul_Fin) linarith
  have m2: "fmul (Fin (r - m2)) (Fin w2) = Fin ((r - m2) * w2)"
    using t2 big by (intro fmul_Fin) linarith
  have a1: "fadd (Fin b0) (Fin ((c - m1) * w1)) = Fin (b0 + (c - m1) * w1)"
    using t1 b0 big by (intro fadd_Fin) linarith
  have a2: "fadd (Fin (b0 + (c - m1) * w1)) (Fin ((r - m2) * w2))
              = Fin (b0 + (c - m1) * w1 + (r - m2) * w2)"
    using t1 t2 b0 big by (intro fadd_Fin) linarith
  have a3: "fadd (Fin (b0 + (c - m1) * w1 + (r - m2) * w2)) (Fin noise)
              = Fin (b0 + (c - m1) * w1 + (r - m2) * w2 + noise)"
    using t1 t2 b0 n big by (intro fadd_Fin) linarith
  show ?thesis
    by (simp only: s1 s2 m1 m2 a1 a2 a3)
qed

lemma fclip_nan_or_in_interval: "fclip 0 100 x = NaN \<or> in_interval 0 100 (fclip 0 100 x)"
  by (cases x) (simp_all add: in_interval_def)

lemma select_f_two:
  "map_of df c1 = Some a \<Longrightarrow> map_of df c2 = Some b \<Longrightarrow> select_f df [c1, c2] = Inr [(c1, a), (c2, b)]"
  by (simp add: getitem_f_def)

lemma getitem_f_humidity: "getitem_f [(SOUND, s), (CELSIUS, c), (HUMIDITY, h)] HUMIDITY = Inr h"
  by (simp add: getitem_f_def)

lemma engineer_single_row_f_eq:
  "engineer_single_row_f temp_k rpm g =
     (Inr [(SOUND, [rpm]),
           (CELSIUS, [fsub temp_k (Fin 273.15)]),
           (HUMIDITY,
            [fclip 0 100
               (fadd (fadd (fadd (Fin 45.0)
                                 (fmul (fsub (fsub temp_k (Fin 273.15)) (Fin 26.85)) (Fin (- 0.5))))
                           (fmul (fsub rpm (Fin 1538.0)) (Fin 0.005)))
                     (Fin (- 0.5 + (0.5 - (- 0.5)) * g 0)))])],
      \<lambda>i. g (Suc i))"
  by (simp add: engineer_single_row_f_def rename_col_f_def getitem_f_def setitem_f_def
      drop_col_f_def columns_f_def humidity_expr_f_def uniform_def)

lemma engineer_features_f_eq:
  assumes "map_of df KELVIN = Some a" and "map_of df RPM = Some b"
  shows "engineer_features_f df g =
     (Inr [(SOUND, b),
           (CELSIUS, map (\<lambda>x. fsub x (Fin 273.15)) a),
           (HUMIDITY, map (fclip 0 100)
              (map2 fadd
                 (humidity_expr_f (map (\<lambda>x. fsub x (Fin 273.15)) a) b
                    (fmean (map (\<lambda>x. fsub x (Fin 273.15)) a)) (fmean b))
                 (map Fin (fst (uniform_n (- 2.5) 2.5 (length b) g)))))],
      snd (uniform_n (- 2.5) 2.5 (length b) g))"
  apply (simp add: engineer_features_f_def select_f_two [OF assms] rename_col_f_def getitem_f_def
      setitem_f_def drop_col_f_def columns_f_def nrows_f_def split_beta Let_def del: select_f.simps)
  apply (simp add: getitem_f_def)
  done

lemma serving_finite:
  assumes t: "\<bar>t\<bar> \<le> MAX_FLOAT" and r: "\<bar>r\<bar> \<le> MAX_FLOAT" and g: "0 \<le> g 0" "g 0 < 1"
  shows "\<exists>h. fst (engineer_single_row_f (Fin t) (Fin r) g)
              = Inr [(SOUND, [Fin r]), (CELSIUS, [Fin (t - 273.15)]), (HUMIDITY, [Fin h])]
            \<and> 0 \<le> h \<and> h \<le> 100"
proof -
  let ?n = "- 0.5 + (0.5 - (- 0.5)) * g 0"
  let ?v = "45.0 + (t - 273.15 - 26.85) * (- 0.5) + (r - 1538.0) * 0.005 + ?n"
  note gap = MAX_FLOAT_gap
  have c: "fsub (Fin t) (Fin 273.15) = Fin (t - 273.15)"
    using t gap by (intro fsub_Fin) (simp; linarith)
  have row: "fadd (fadd (fadd (Fin 45.0)
                                 (fmul (fsub (Fin (t - 273.15)) (Fin 26.85)) (Fin (- 0.5))))
                           (fmul (fsub (Fin r) (Fin 1538.0)) (Fin 0.005)))
                     (Fin ?n)
             = Fin ?v"
  proof (rule humidity_value_finite)
    show "\<bar>t - 273.15 - 26.85\<bar> < OVERFLOW" using t gap by (simp; linarith)
    show "\<bar>r - 1538.0\<bar> < OVERFLOW" using r gap by (simp; linarith)
    show "\<bar>?n\<bar> \<le> 3" using g by (simp; linarith)
  qed simp_all
  have "fst (engineer_single_row_f (Fin t) (Fin r) g)
          = Inr [(SOUND, [Fin r]), (CELSIUS, [Fin (t - 273.15)]),
                 (HUMIDITY, [fclip 0 100 (Fin ?v)])]"
    by (simp only: engineer_single_row_f_eq c row fst_conv)
  then have "fst (engineer_single_row_f (Fin t) (Fin r) g)
          = Inr [(SOUND, [Fin r]), (CELSIUS, [Fin (t - 273.15)]),
                 (HUMIDITY, [Fin (min 100 (max 0 ?v))])]"
    by (simp only: fclip.simps)
  moreover have "0 \<le> min 100 (max 0 ?v)" and "min 100 (max 0 ?v) \<le> 100"
    by simp_all
  ultimately show ?thesis by blast
qed


lemma length_humidity_expr:
  "length (humidity_expr c s tm rm) = min (length c) (length s)"
  by (simp add: humidity_expr_def series_add_def scalar_add_def mul_scalar_def sub_scalar_def)

lemma clip_bounds: "x \<in> set (clip 0 100 s) \<Longrightarrow> 0 \<le> x \<and> x \<le> 100"
  by (auto simp: clip_def)

lemma sub_scalar_Fin:
  "(\<forall>k \<in> set ks. \<bar>k - c\<bar> < OVERFLOW) \<Longrightarrow>
     map (\<lambda>x. fsub x (Fin c)) (map Fin ks) = map Fin (sub_scalar ks c)"
  by (induction ks) (simp_all add: sub_scalar_def fsub_Fin)

lemma clip_Fin: "map (fclip 0 100) (map Fin xs) = map Fin (clip 0 100 xs)"
  by (simp add: clip_def)

lemma foldl_fadd_Fin:
  "(\<forall>x \<in> set xs. \<bar>x\<bar> \<le> C) \<Longrightarrow> \<bar>s\<bar> + real (length xs) * C < OVERFLOW \<Longrightarrow>
     foldl fadd (Fin s) (map Fin xs) = Fin (s + sum_list xs)"
proof (induction xs arbitrary: s)
  case Nil
  show ?case by simp
next
  case (Cons x xs)
  have x: "\<bar>x\<bar> \<le> C" and rest: "\<forall>y \<in> set xs. \<bar>y\<bar> \<le> C"
    using Cons.prems(1) by simp_all
  have room: "\<bar>s\<bar> + C + real (length xs) * C < OVERFLOW"
    using Cons.prems(2) by (simp add: algebra_simps)
  have "0 \<le> C" using x by linarith
  then have tail: "0 \<le> real (length xs) * C" by simp
  have step: "fadd (Fin s) (Fin x) = Fin (s + x)"
    using x room tail by (intro fadd_Fin) linarith
  have "foldl fadd (Fin (s + x)) (map Fin xs) = Fin (s + x + sum_list xs)"
    using rest x room by (intro Cons.IH) (simp, linarith)
  then have "foldl fadd (fadd (Fin s) (Fin x)) (map Fin xs) = Fin (s + (x + sum_list xs))"
    by (simp only: step add.assoc)
  then show ?case
    by (simp only: list.map foldl_Cons sum_list.Cons)
qed

lemma sum_list_abs_bound:
  "(\<forall>x \<in> set xs. \<bar>x\<bar> \<le> C) \<Longrightarrow> \<bar>sum_list xs\<bar> \<le> real (length xs) * C"
proof (induction xs)
  case Nil
  show ?case by simp
next
  case (Cons x xs)
  then have "\<bar>x\<bar> \<le> C" and "\<bar>sum_list xs\<bar> \<le> real (length xs) * C"
    by simp_all
  then have "\<bar>x + sum_list xs\<bar> \<le> C + real (length xs) * C"
    by linarith
  then show ?case by (simp add: algebra_simps)
qed

lemma mean_abs_bound:
  assumes "xs \<noteq> []" and "\<forall>x \<in> set xs. \<bar>x\<bar> \<le> C"
  shows "\<bar>mean xs\<bar> \<le> C"
proof -
  have pos: "0 < real (length xs)" using assms(1) by simp
  have "\<bar>sum_list xs\<bar> \<le> real (length xs) * C"
    using assms(2) by (rule sum_list_abs_bound)
  then have "\<bar>sum_list xs\<bar> / real (length xs) \<le> C"
    using pos by (simp add: pos_divide_le_eq mult.commute)
  then show ?thesis
    by (simp add: mean_def)
qed

lemma fmean_Fin:
  assumes "xs \<noteq> []" and "\<forall>x \<in> set xs. \<bar>x\<bar> \<le> C" and "real (length xs) * C < OVERFLOW"
  shows "fmean (map Fin xs) = Fin (mean xs)"
proof -
  have keep: "filter (\<lambda>x. x \<noteq> NaN) (map Fin xs) = map Fin xs"
    by (induction xs) simp_all
  have "foldl fadd (Fin 0) (map Fin xs) = Fin (0 + sum_list xs)"
    using assms(2,3) by (intro foldl_fadd_Fin) simp_all
  then have total: "fsum (map Fin xs) = Fin (sum_list xs)"
    by (simp add: fsum_def)
  show ?thesis
    using assms(1) by (simp add: fmean_def keep total mean_def)
qed

lemma humidity_expr_f_Nil: "humidity_expr_f [] rs M1 M2 = []"
  by (simp add: humidity_expr_f_def Let_def)

lemma humidity_expr_f_Nil2: "humidity_expr_f cs [] M1 M2 = []"
  by (simp add: humidity_expr_f_def Let_def)

lemma humidity_expr_f_Cons:
  "humidity_expr_f (c # cs) (r # rs) M1 M2 =
     fadd (fadd (Fin 45.0) (fmul (fsub c M1) (Fin (- 0.5)))) (fmul (fsub r M2) (Fin 0.005))
       # humidity_expr_f cs rs M1 M2"
  by (simp add: humidity_expr_f_def Let_def)

lemma humidity_expr_Nil: "humidity_expr [] rs m1 m2 = []"
  by (simp add: humidity_expr_def series_add_def scalar_add_def mul_scalar_def sub_scalar_def
      Let_def)

lemma humidity_expr_Nil2: "humidity_expr cs [] m1 m2 = []"
  by (simp add: humidity_expr_def series_add_def scalar_add_def mul_scalar_def sub_scalar_def
      Let_def)

lemma humidity_expr_Cons:
  "humidity_expr (c # cs) (r # rs) m1 m2 =
     (45.0 + (c - m1) * (- 0.5) + (r - m2) * 0.005) # humidity_expr cs rs m1 m2"
  by (simp add: humidity_expr_def series_add_def scalar_add_def mul_scalar_def sub_scalar_def
      Let_def)

lemma humidity_with_noise_Fin:
  assumes "\<forall>c \<in> set cs. \<bar>c - m1\<bar> < OVERFLOW" and "\<forall>r \<in> set rs. \<bar>r - m2\<bar> < OVERFLOW"
    and "\<forall>n \<in> set ns. \<bar>n\<bar> \<le> 3"
  shows "map2 fadd (humidity_expr_f (map Fin cs) (map Fin rs) (Fin m1) (Fin m2)) (map Fin ns)
           = map Fin (series_add (humidity_expr cs rs m1 m2) ns)"
  using assms
proof (induction cs arbitrary: rs ns)
  case Nil
  show ?case by (simp add: humidity_expr_f_Nil humidity_expr_Nil series_add_def)
next
  case (Cons c cs)
  show ?case
  proof (cases rs)
    case Nil
    then show ?thesis by (simp add: humidity_expr_f_Nil2 humidity_expr_Nil2 series_add_def)
  next
    case rs: (Cons r rs')
    show ?thesis
    proof (cases ns)
      case Nil
      then show ?thesis by (simp add: series_add_def)
    next
      case ns: (Cons n ns')
      have head: "fadd (fadd (fadd (Fin 45.0) (fmul (fsub (Fin c) (Fin m1)) (Fin (- 0.5))))
                             (fmul (fsub (Fin r) (Fin m2)) (Fin 0.005)))
                       (Fin n)
                  = Fin (45.0 + (c - m1) * (- 0.5) + (r - m2) * 0.005 + n)"
      proof (rule humidity_value_finite)
        show "\<bar>c - m1\<bar> < OVERFLOW" using Cons.prems(1) by simp
        show "\<bar>r - m2\<bar> < OVERFLOW" using Cons.prems(2) rs by simp
        show "\<bar>n\<bar> \<le> 3" using Cons.prems(3) ns by simp
      qed simp_all
      have tail: "map2 fadd (humidity_expr_f (map Fin cs) (map Fin rs') (Fin m1) (Fin m2)) (map Fin ns')
           = map Fin (series_add (humidity_expr cs rs' m1 m2) ns')"
        using Cons.prems rs ns by (intro Cons.IH) simp_all
      have left: "map2 fadd (humidity_expr_f (map Fin (c # cs)) (map Fin (r # rs')) (Fin m1) (Fin m2))
                    (map Fin (n # ns'))
           = fadd (fadd (fadd (Fin 45.0) (fmul (fsub (Fin c) (Fin m1)) (Fin (- 0.5))))
                             (fmul (fsub (Fin r) (Fin m2)) (Fin 0.005)))
                       (Fin n)
             # map2 fadd (humidity_expr_f (map Fin cs) (map Fin rs') (Fin m1) (Fin m2)) (map Fin ns')"
        by (simp only: list.map humidity_expr_f_Cons zip_Cons_Cons prod.case)
      have right: "series_add (humidity_expr (c # cs) (r # rs') m1 m2) (n # ns')
           = (45.0 + (c - m1) * (- 0.5) + (r - m2) * 0.005 + n)
             # series_add (humidity_expr cs rs' m1 m2) ns'"
        by (simp only: humidity_expr_Cons series_add_def zip_Cons_Cons list.map prod.case)
      show ?thesis
        unfolding rs ns left right head tail by (simp only: list.map)
    qed
  qed
qed

lemma uniform_n_bounded:
  assumes "\<forall>i. 0 \<le> g i \<and> g i < 1"
  shows "\<forall>x \<in> set (fst (uniform_n (- 2.5) 2.5 n g)). \<bar>x\<bar> \<le> 3"
proof
  fix x assume "x \<in> set (fst (uniform_n (- 2.5) 2.5 n g))"
  then obtain i where "x = - 2.5 + (2.5 - (- 2.5)) * g i"
    by (auto simp: uniform_n_def)
  moreover have "0 \<le> g i" and "g i < 1" using assms by simp_all
  ultimately show "\<bar>x\<bar> \<le> 3" by (simp; linarith)
qed

lemma training_finite:
  assumes a: "map_of df KELVIN = Some (map Fin ka)" and b: "map_of df RPM = Some (map Fin kb)"
    and len: "length ka = length kb" and rows: "real (length ka) \<le> 10 ^ 6"
    and ka: "\<forall>k \<in> set ka. \<bar>k\<bar> \<le> 10 ^ 300" and kb: "\<forall>k \<in> set kb. \<bar>k\<bar> \<le> 10 ^ 300"
    and g: "\<forall>i. 0 \<le> g i \<and> g i < 1"
  shows "fst (engineer_features_f df g) =
     Inr [(SOUND, map Fin kb),
          (CELSIUS, map Fin (sub_scalar ka 273.15)),
          (HUMIDITY, map Fin (clip 0 100
             (series_add
                (humidity_expr (sub_scalar ka 273.15) kb (mean (sub_scalar ka 273.15)) (mean kb))
                (fst (uniform_n (- 2.5) 2.5 (length kb) g)))))]"
proof (cases "ka = []")
  case True
  with len have "kb = []" by simp
  with True show ?thesis
    by (simp add: engineer_features_f_eq [OF a b] humidity_expr_f_Nil humidity_expr_Nil
        sub_scalar_def series_add_def clip_def uniform_n_def)
next
  case False
  let ?B = "10 ^ 300 :: real"
  let ?C = "10 ^ 300 + 274 :: real"
  let ?cs = "sub_scalar ka 273.15"
  have kb_ne: "kb \<noteq> []" using False len by auto
  have cs_ne: "?cs \<noteq> []" using False by (simp add: sub_scalar_def)
  have BC: "?B \<le> ?C" by simp
  have C1: "?C < 10 ^ 307" by simp
  have C2: "?C + ?C < 10 ^ 307" by simp
  have CN: "10 ^ 6 * ?C < 10 ^ 307" by simp
  have cs: "\<forall>c \<in> set ?cs. \<bar>c\<bar> \<le> ?C"
  proof
    fix c assume "c \<in> set ?cs"
    then obtain k where "k \<in> set ka" and c: "c = k - 273.15"
      by (auto simp: sub_scalar_def)
    then have "\<bar>k\<bar> \<le> ?B" using ka by simp
    moreover have "\<bar>273.15 :: real\<bar> \<le> 274" by simp
    ultimately have "\<bar>k - 273.15\<bar> \<le> ?B + 274" by linarith
    then show "\<bar>c\<bar> \<le> ?C" by (simp only: c)
  qed
  have shift: "\<forall>k \<in> set ka. \<bar>k - 273.15\<bar> < OVERFLOW"
  proof
    fix k assume "k \<in> set ka"
    then obtain x where x: "x = k - 273.15" and "x \<in> set ?cs"
      by (auto simp: sub_scalar_def)
    then have "\<bar>x\<bar> \<le> ?C" using cs by blast
    then have "\<bar>x\<bar> < OVERFLOW" using C1 OVERFLOW_large by linarith
    then show "\<bar>k - 273.15\<bar> < OVERFLOW" by (simp only: x)
  qed
  have "real (length ?cs) * ?C \<le> 10 ^ 6 * ?C"
    using rows by (intro mult_right_mono) (simp_all add: sub_scalar_def)
  then have sum_cs: "real (length ?cs) * ?C < OVERFLOW"
    using CN OVERFLOW_large by linarith
  have "real (length kb) * ?C \<le> 10 ^ 6 * ?C"
    using rows len by (intro mult_right_mono) simp_all
  then have sum_kb: "real (length kb) * ?C < OVERFLOW"
    using CN OVERFLOW_large by linarith
  have kb': "\<forall>k \<in> set kb. \<bar>k\<bar> \<le> ?C"
    using kb BC by force
  have L1: "map (\<lambda>x. fsub x (Fin 273.15)) (map Fin ka) = map Fin ?cs"
    using shift by (rule sub_scalar_Fin)
  have L2a: "fmean (map Fin ?cs) = Fin (mean ?cs)"
    using cs_ne cs sum_cs by (rule fmean_Fin)
  have L2b: "fmean (map Fin kb) = Fin (mean kb)"
    using kb_ne kb' sum_kb by (rule fmean_Fin)
  have m1: "\<bar>mean ?cs\<bar> \<le> ?C" using cs_ne cs by (rule mean_abs_bound)
  have m2: "\<bar>mean kb\<bar> \<le> ?C" using kb_ne kb' by (rule mean_abs_bound)
  have dev1: "\<forall>c \<in> set ?cs. \<bar>c - mean ?cs\<bar> < OVERFLOW"
  proof
    fix c assume "c \<in> set ?cs"
    then have "\<bar>c\<bar> \<le> ?C" using cs by blast
    then show "\<bar>c - mean ?cs\<bar> < OVERFLOW" using m1 C2 OVERFLOW_large by linarith
  qed
  have dev2: "\<forall>r \<in> set kb. \<bar>r - mean kb\<bar> < OVERFLOW"
  proof
    fix r assume "r \<in> set kb"
    then have "\<bar>r\<bar> \<le> ?C" using kb' by blast
    then show "\<bar>r - mean kb\<bar> < OVERFLOW" using m2 C2 OVERFLOW_large by linarith
  qed
  have L3: "map2 fadd (humidity_expr_f (map Fin ?cs) (map Fin kb) (Fin (mean ?cs)) (Fin (mean kb)))
              (map Fin (fst (uniform_n (- 2.5) 2.5 (length kb) g)))
           = map Fin (series_add (humidity_expr ?cs kb (mean ?cs) (mean kb))
                        (fst (uniform_n (- 2.5) 2.5 (length kb) g)))"
    using dev1 dev2 uniform_n_bounded [OF g] by (rule humidity_with_noise_Fin)
  show ?thesis
    by (simp only: engineer_features_f_eq [OF a b] fst_conv length_map L1 L2a L2b L3 clip_Fin)
qed


text \<open>
  Claim C3, as stated, fails. A reading whose temperature is NaN, which the request parser
  lets through, gives the humidity NaN on the serving path, and NaN is not in the interval
  from 0 to 100: the clip keeps it. On the training path the finite corpus of two rows of
  1.7e308 in both columns overflows both column sums, the means are infinite, and both
  humidity values are NaN.
\<close>

theorem nan_humidity_on_nan_reading_and_on_overflow:
  "fst (engineer_single_row_f NaN (Fin 1500) steady)
     = Inr [(SOUND, [Fin 1500]), (CELSIUS, [NaN]), (HUMIDITY, [NaN])]
   \<and> \<not> in_interval 0 100 NaN
   \<and> fst (engineer_features_f
            [(KELVIN, [Fin (17 * 10 ^ 307), Fin (17 * 10 ^ 307)]),
             (RPM, [Fin (17 * 10 ^ 307), Fin (17 * 10 ^ 307)])] steady)
     = Inr [(SOUND, [Fin (17 * 10 ^ 307), Fin (17 * 10 ^ 307)]),
            (CELSIUS, [Fin (17 * 10 ^ 307 - 273.15), Fin (17 * 10 ^ 307 - 273.15)]),
            (HUMIDITY, [NaN, NaN])]"
proof (intro conjI)
  show "fst (engineer_single_row_f NaN (Fin 1500) steady)
     = Inr [(SOUND, [Fin 1500]), (CELSIUS, [NaN]), (HUMIDITY, [NaN])]"
    by (simp add: engineer_single_row_f_eq fsub_def)
next
  show "\<not> in_interval 0 100 NaN"
    by (simp add: in_interval_def)
next
  show "fst (engineer_features_f
            [(KELVIN, [Fin (17 * 10 ^ 307), Fin (17 * 10 ^ 307)]),
             (RPM, [Fin (17 * 10 ^ 307), Fin (17 * 10 ^ 307)])] steady)
     = Inr [(SOUND, [Fin (17 * 10 ^ 307), Fin (17 * 10 ^ 307)]),
            (CELSIUS, [Fin (17 * 10 ^ 307 - 273.15), Fin (17 * 10 ^ 307 - 273.15)]),
            (HUMIDITY, [NaN, NaN])]"
    by (simp add: engineer_features_f_eq
          [of _ "[Fin (17 * 10 ^ 307), Fin (17 * 10 ^ 307)]"
                "[Fin (17 * 10 ^ 307), Fin (17 * 10 ^ 307)]"]
        fsub_def overflow_def OVERFLOW_def fmean_def fsum_def humidity_expr_f_def Let_def
        uniform_n_def steady_def upt_rec)
qed

text \<open>
  Claim C3, amended. For every finite reading and whatever noise value is drawn, the
  humidity of the serving path lies in the closed interval from 0 to 100. On the training
  path the same holds for every corpus of at most a million rows whose temperatures and
  speeds are finite and at most 1e300 in magnitude. For any reading and any corpus, each
  humidity value is either NaN or in the interval: the clip is the last operation on the
  column, after the noise is added, and it keeps NaN.
\<close>

theorem humidity_clamped_on_finite_inputs:
  "(\<bar>t\<bar> \<le> MAX_FLOAT \<and> \<bar>r\<bar> \<le> MAX_FLOAT \<and> 0 \<le> g 0 \<and> g 0 < 1 \<longrightarrow>
      (\<exists>fd h. fst (engineer_single_row_f (Fin t) (Fin r) g) = Inr fd
         \<and> getitem_f fd HUMIDITY = Inr [Fin h] \<and> 0 \<le> h \<and> h \<le> 100))
   \<and> (\<exists>fd h. fst (engineer_single_row_f temp_k rpm g) = Inr fd
         \<and> getitem_f fd HUMIDITY = Inr [h] \<and> (h = NaN \<or> in_interval 0 100 h))
   \<and> (getitem_f df KELVIN = Inr a \<and> getitem_f df RPM = Inr b \<and> length a = length b \<longrightarrow>
      (\<exists>fd h. fst (engineer_features_f df g) = Inr fd
         \<and> getitem_f fd HUMIDITY = Inr h \<and> length h = length a
         \<and> (\<forall>x \<in> set h. x = NaN \<or> in_interval 0 100 x)))
   \<and> (getitem_f df KELVIN = Inr (map Fin ka) \<and> getitem_f df RPM = Inr (map Fin kb)
        \<and> length ka = length kb \<and> length ka \<le> 10 ^ 6
        \<and> (\<forall>k \<in> set ka. \<bar>k\<bar> \<le> 10 ^ 300) \<and> (\<forall>k \<in> set kb. \<bar>k\<bar> \<le> 10 ^ 300)
        \<and> (\<forall>i. 0 \<le> g i \<and> g i < 1) \<longrightarrow>
      (\<exists>fd h. fst (engineer_features_f df g) = Inr fd
         \<and> getitem_f fd HUMIDITY = Inr (map Fin h) \<and> length h = length ka
         \<and> (\<forall>x \<in> set h. 0 \<le> x \<and> x \<le> 100)))"
proof (intro conjI impI)
  assume "\<bar>t\<bar> \<le> MAX_FLOAT \<and> \<bar>r\<bar> \<le> MAX_FLOAT \<and> 0 \<le> g 0 \<and> g 0 < 1"
  then obtain h where
    "fst (engineer_single_row_f (Fin t) (Fin r) g)
       = Inr [(SOUND, [Fin r]), (CELSIUS, [Fin (t - 273.15)]), (HUMIDITY, [Fin h])]"
    and "0 \<le> h" and "h \<le> 100"
    using serving_finite [of t r g] by blast
  then show "\<exists>fd h. fst (engineer_single_row_f (Fin t) (Fin r) g) = Inr fd
         \<and> getitem_f fd HUMIDITY = Inr [Fin h] \<and> 0 \<le> h \<and> h \<le> 100"
    using getitem_f_humidity by blast
next
  show "\<exists>fd h. fst (engineer_single_row_f temp_k rpm g) = Inr fd
         \<and> getitem_f fd HUMIDITY = Inr [h] \<and> (h = NaN \<or> in_interval 0 100 h)"
    unfolding engineer_single_row_f_eq fst_conv
    using getitem_f_humidity fclip_nan_or_in_interval by blast
next
  assume "getitem_f df KELVIN = Inr a \<and> getitem_f df RPM = Inr b \<and> length a = length b"
  then have a: "map_of df KELVIN = Some a" and b: "map_of df RPM = Some b"
    and len: "length a = length b"
    by (auto simp: getitem_f_def split: option.splits)
  let ?h = "map (fclip 0 100)
              (map2 fadd
                 (humidity_expr_f (map (\<lambda>x. fsub x (Fin 273.15)) a) b
                    (fmean (map (\<lambda>x. fsub x (Fin 273.15)) a)) (fmean b))
                 (map Fin (fst (uniform_n (- 2.5) 2.5 (length b) g))))"
  have "length ?h = length a"
    using len by (simp add: humidity_expr_f_def Let_def uniform_n_def)
  moreover have "\<forall>x \<in> set ?h. x = NaN \<or> in_interval 0 100 x"
    using fclip_nan_or_in_interval by auto
  moreover have "fst (engineer_features_f df g)
      = Inr [(SOUND, b), (CELSIUS, map (\<lambda>x. fsub x (Fin 273.15)) a), (HUMIDITY, ?h)]"
    by (simp only: engineer_features_f_eq [OF a b] fst_conv)
  ultimately show "\<exists>fd h. fst (engineer_features_f df g) = Inr fd
         \<and> getitem_f fd HUMIDITY = Inr h \<and> length h = length a
         \<and> (\<forall>x \<in> set h. x = NaN \<or> in_interval 0 100 x)"
    using getitem_f_humidity by blast
next
  assume h: "getitem_f df KELVIN = Inr (map Fin ka) \<and> getitem_f df RPM = Inr (map Fin kb)
        \<and> length ka = length kb \<and> length ka \<le> 10 ^ 6
        \<and> (\<forall>k \<in> set ka. \<bar>k\<bar> \<le> 10 ^ 300) \<and> (\<forall>k \<in> set kb. \<bar>k\<bar> \<le> 10 ^ 300)
        \<and> (\<forall>i. 0 \<le> g i \<and> g i < 1)"
  then have a: "map_of df KELVIN = Some (map Fin ka)" and b: "map_of df RPM = Some (map Fin kb)"
    by (auto simp: getitem_f_def split: option.splits)
  from h have len: "length ka = length kb" and ka: "\<forall>k \<in> set ka. \<bar>k\<bar> \<le> 10 ^ 300"
    and kb: "\<forall>k \<in> set kb. \<bar>k\<bar> \<le> 10 ^ 300" and g: "\<forall>i. 0 \<le> g i \<and> g i < 1"
    by blast+
  from h have "length ka \<le> 10 ^ 6" by blast
  then have "real (length ka) \<le> real (10 ^ 6)" by (simp only: of_nat_le_iff)
  then have rows: "real (length ka) \<le> 10 ^ 6" by simp
  let ?h = "clip 0 100
             (series_add
                (humidity_expr (sub_scalar ka 273.15) kb (mean (sub_scalar ka 273.15)) (mean kb))
                (fst (uniform_n (- 2.5) 2.5 (length kb) g)))"
  have "fst (engineer_features_f df g)
      = Inr [(SOUND, map Fin kb), (CELSIUS, map Fin (sub_scalar ka 273.15)), (HUMIDITY, map Fin ?h)]"
    using a b len rows ka kb g by (rule training_finite)
  moreover have "length ?h = length ka"
    using len by (simp add: clip_def series_add_def length_humidity_expr sub_scalar_def uniform_n_def)
  moreover have "\<forall>x \<in> set ?h. 0 \<le> x \<and> x \<le> 100"
    using clip_bounds by blast
  ultimately show "\<exists>fd h. fst (engineer_features_f df g) = Inr fd
         \<and> getitem_f fd HUMIDITY = Inr (map Fin h) \<and> length h = length ka
         \<and> (\<forall>x \<in> set h. 0 \<le> x \<and> x \<le> 100)"
    using getitem_f_humidity by blast
qed

theorem humidity_clamped_on_finite_inputs_witness:
  "(\<exists>fd h. fst (engineer_single_row_f (Fin (17 * 10 ^ 307)) (Fin (- (17 * 10 ^ 307))) steady)
               = Inr fd
         \<and> getitem_f fd HUMIDITY = Inr [Fin h] \<and> 0 \<le> h \<and> h \<le> 100)
   \<and> (\<exists>fd h. fst (engineer_features_f
                     [(KELVIN, map Fin [0, 1000]), (RPM, map Fin [100000, 0])] steady) = Inr fd
         \<and> getitem_f fd HUMIDITY = Inr (map Fin h) \<and> length h = length [0, 1000 :: real]
         \<and> (\<forall>x \<in> set h. 0 \<le> x \<and> x \<le> 100))"
proof -
  have serving: "\<bar>17 * 10 ^ 307\<bar> \<le> MAX_FLOAT \<and> \<bar>- (17 * 10 ^ 307)\<bar> \<le> MAX_FLOAT
     \<and> 0 \<le> steady 0 \<and> steady 0 < 1"
    by (simp add: MAX_FLOAT_def steady_def)
  have training: "getitem_f [(KELVIN, map Fin [0, 1000]), (RPM, map Fin [100000, 0])] KELVIN
         = Inr (map Fin [0, 1000])
       \<and> getitem_f [(KELVIN, map Fin [0, 1000]), (RPM, map Fin [100000, 0])] RPM
         = Inr (map Fin [100000, 0])
       \<and> length [0, 1000 :: real] = length [100000, 0 :: real]
       \<and> length [0, 1000 :: real] \<le> 10 ^ 6
       \<and> (\<forall>k \<in> set [0, 1000 :: real]. \<bar>k\<bar> \<le> 10 ^ 300)
       \<and> (\<forall>k \<in> set [100000, 0 :: real]. \<bar>k\<bar> \<le> 10 ^ 300)
       \<and> (\<forall>i. 0 \<le> steady i \<and> steady i < 1)"
    by (simp add: getitem_f_def steady_def)
  from humidity_clamped_on_finite_inputs [where t = "17 * 10 ^ 307" and r = "- (17 * 10 ^ 307)"
      and g = steady and temp_k = NaN and rpm = NaN
      and df = "[(KELVIN, map Fin [0, 1000]), (RPM, map Fin [100000, 0])]"
      and a = "[]" and b = "[]" and ka = "[0, 1000]" and kb = "[100000, 0]"]
    serving training
  show ?thesis by blast
qed

end
